theory Spec2Isabelle
  imports Main
begin

section \<open>Data model of \<^verbatim>\<open>src/reader.c\<close>\<close>

text \<open>
  A \<^verbatim>\<open>git_reader\<close> reads the content of a file by name from one of three views of a
  repository: a tree, the index, or the working directory. The three \<^verbatim>\<open>read\<close>
  functions, the three constructors, \<^verbatim>\<open>git_reader_read\<close> and
  \<^verbatim>\<open>git_reader_free\<close> are embedded below from the C source. The subsystems they
  call (object database, tree and index lookup, filters, hashing, buffers, path joining)
  are not part of that file: simple lookups are modelled as maps, everything else is a
  field of a record that the functions take as an argument.

  Conventions. A pointer to an object that a read only inspects (tree, repository,
  index) is modelled by the object pointed to. A C function that returns a status and
  sets an out-parameter on success is a function to \<open>int + 'a\<close>: \<open>Inl e\<close> is the
  failure with the (negative) code \<open>e\<close>, \<open>Inr x\<close> is status 0 with output \<open>x\<close>. The
  nullable out-parameter \<^verbatim>\<open>git_oid *out_id\<close> is a \<open>git_oid option\<close>: \<open>None\<close> is the
  null pointer, \<open>Some v\<close> is a pointer to storage that currently holds \<open>v\<close>.
\<close>

type_synonym bytes = string
type_synonym path = string
type_synonym git_oid = string

datatype git_otype = GIT_OBJ_COMMIT | GIT_OBJ_TREE | GIT_OBJ_BLOB | GIT_OBJ_TAG

datatype git_filter_mode_t = GIT_FILTER_TO_WORKTREE | GIT_FILTER_TO_ODB

text \<open>
  Modelled from the spec: the two status codes named in \<^verbatim>\<open>reader.c\<close> are defined in
  headers outside the file (\<^verbatim>\<open>git2/errors.h\<close>, \<^verbatim>\<open>reader.h\<close>). The spec lists NotFound and
  Mismatch as distinct error kinds; the values are those of libgit2.
\<close>

definition GIT_ENOTFOUND :: int where
  "GIT_ENOTFOUND = - 3"

definition GIT_READER_MISMATCH :: int where
  "GIT_READER_MISMATCH = 1"

subsection \<open>Buffers\<close>

text \<open>
  Modelled from the spec: \<^verbatim>\<open>git_buf\<close> and its operations are outside the file. A
  buffer either holds bytes or is marked out-of-memory after a failed growth (the
  spec's AllocationFailure: buffer growth failed); the mark is sticky and a marked
  buffer holds no content. Whether a growth to \<open>n\<close> bytes succeeds is decided by the
  allocator, a parameter.
\<close>

datatype git_buf = Buf bytes | Buf_oom

definition GIT_BUF_INIT :: git_buf where
  "GIT_BUF_INIT = Buf []"

fun git_buf_content :: "git_buf \<Rightarrow> bytes" where
  "git_buf_content (Buf s) = s"
| "git_buf_content Buf_oom = []"

fun git_buf_clear :: "git_buf \<Rightarrow> git_buf" where
  "git_buf_clear (Buf s) = Buf []"
| "git_buf_clear Buf_oom = Buf_oom"

fun git_buf_put :: "(nat \<Rightarrow> bool) \<Rightarrow> git_buf \<Rightarrow> bytes \<Rightarrow> git_buf" where
  "git_buf_put grow_ok (Buf s) d =
     (if grow_ok (length s + length d + 1) then Buf (s @ d) else Buf_oom)"
| "git_buf_put grow_ok Buf_oom d = Buf_oom"

fun git_buf_oom :: "git_buf \<Rightarrow> bool" where
  "git_buf_oom Buf_oom = True"
| "git_buf_oom (Buf s) = False"

subsection \<open>Collaborators\<close>

text \<open>
  Library-wide collaborators, taken as parameters: path joining, content hashing
  (\<^verbatim>\<open>git_odb_hash\<close>), and the allocator (for buffer growth and for \<^verbatim>\<open>git__calloc\<close> of
  a reader).
\<close>

record env =
  git_buf_joinpath :: "path \<Rightarrow> path \<Rightarrow> int + path"
  git_odb_hash :: "bytes \<Rightarrow> git_otype \<Rightarrow> int + git_oid"
  git_buf_grow_ok :: "nat \<Rightarrow> bool"
  git__calloc_ok :: bool

record git_tree_entry =
  git_tree_entry_id :: git_oid

record git_index_entry =
  index_entry_id :: git_oid

text \<open>The index: entries by path and stage.\<close>

type_synonym git_index = "path \<times> nat \<Rightarrow> git_index_entry option"

definition git_index_get_bypath :: "git_index \<Rightarrow> path \<Rightarrow> nat \<Rightarrow> git_index_entry option" where
  "git_index_get_bypath index p stage = index (p, stage)"

text \<open>
  A loaded filter list maps the raw bytes of a file to the filtered bytes, or fails.
\<close>

type_synonym git_filter_list = "bytes \<Rightarrow> int + bytes"

text \<open>
  A repository, as far as the readers use it: the working directory root, blob lookup
  in its object database (the raw content of the blob, or an error), its own index
  (\<^verbatim>\<open>git_repository_index__weakptr\<close>), the filters configured for a path and a
  direction, and the files of the working directory by absolute path.
\<close>

record git_repository =
  git_repository_workdir :: path
  git_blob_lookup :: "git_oid \<Rightarrow> int + bytes"
  git_repository_index__weakptr :: "int + git_index"
  git_filter_list_load :: "path \<Rightarrow> git_filter_mode_t \<Rightarrow> int + git_filter_list"
  workdir_files :: "path \<Rightarrow> bytes option"

record git_tree =
  git_tree_owner :: git_repository
  tree_entries :: "path \<Rightarrow> git_tree_entry option"

text \<open>
  Modelled from the spec: \<^verbatim>\<open>git_tree_entry_bypath\<close> is outside the file; the spec gives
  it as \<open>entry_by_path(tree, path) -> entry | NotFound\<close>.
\<close>

definition git_tree_entry_bypath :: "git_tree \<Rightarrow> path \<Rightarrow> int + git_tree_entry" where
  "git_tree_entry_bypath tree p =
     (case tree_entries tree p of None \<Rightarrow> Inl GIT_ENOTFOUND | Some entry \<Rightarrow> Inr entry)"

definition git_oid_equal :: "git_oid \<Rightarrow> git_oid \<Rightarrow> bool" where
  "git_oid_equal a b = (a = b)"

text \<open>\<^verbatim>\<open>git_oid_cpy(out_id, id)\<close> under \<^verbatim>\<open>if (out_id)\<close>: writes only through a non-null pointer.\<close>

fun git_oid_cpy :: "git_oid option \<Rightarrow> git_oid \<Rightarrow> git_oid option" where
  "git_oid_cpy None new_id = None"
| "git_oid_cpy (Some old) new_id = Some new_id"

text \<open>
  Modelled from the spec: \<^verbatim>\<open>git_blob__getbuf\<close> is outside the file; it copies the raw
  bytes of the blob to the output buffer and fails when the buffer cannot grow.
\<close>

definition git_blob__getbuf :: "env \<Rightarrow> git_buf \<Rightarrow> bytes \<Rightarrow> int \<times> git_buf" where
  "git_blob__getbuf e out blob =
     (let out1 = git_buf_put (git_buf_grow_ok e) (git_buf_clear out) blob
      in (if git_buf_oom out1 then - 1 else 0, out1))"

text \<open>
  Modelled from the spec: \<^verbatim>\<open>git_filter_list_apply_to_file\<close> is outside the file; it
  applies the filters while reading the file from disk into the output buffer. It
  fails with NotFound when there is no file at the path, with the filters' error when
  they fail, and when the buffer cannot grow. The spec gives the operation as
  \<open>apply(pipeline, repository, absolute_path, out) -> error\<close> and does not say what the
  buffer holds after a failure; the model clears it, and no theorem below depends on
  that choice: where a read fails in this call, the theorems speak of the buffer only
  as this function left it.
\<close>

definition git_filter_list_apply_to_file ::
  "env \<Rightarrow> git_buf \<Rightarrow> git_filter_list \<Rightarrow> git_repository \<Rightarrow> path \<Rightarrow> int \<times> git_buf" where
  "git_filter_list_apply_to_file e out filters repo p =
     (case workdir_files repo p of
        None \<Rightarrow> (GIT_ENOTFOUND, git_buf_clear out)
      | Some raw \<Rightarrow>
          (case filters raw of
             Inl err \<Rightarrow> (err, git_buf_clear out)
           | Inr filtered \<Rightarrow>
               (let out1 = git_buf_put (git_buf_grow_ok e) (git_buf_clear out) filtered
                in (if git_buf_oom out1 then - 1 else 0, out1))))"

subsection \<open>Readers\<close>

text \<open>
  The three reader structs. The two function pointers of the embedded \<^verbatim>\<open>git_reader\<close>
  are set by the constructors to the functions of the variant, so the variant (the
  constructor of \<open>git_reader\<close>) stands for them.
\<close>

record tree_reader =
  tr_tree :: git_tree

record workdir_reader =
  wr_repo :: git_repository
  wr_index :: "git_index option"

record index_reader =
  ir_repo :: git_repository
  ir_index :: git_index

datatype git_reader =
  Tree_reader tree_reader
| Workdir_reader workdir_reader
| Index_reader index_reader

text \<open>
  What a read leaves behind: the returned status, the output buffer, the identity
  output, and the calls made to \<^verbatim>\<open>git_odb_hash\<close> (data and object type), in order.
\<close>

record read_result =
  ret :: int
  out_buf :: git_buf
  out_oid :: "git_oid option"
  hash_calls :: "(bytes \<times> git_otype) list"

section \<open>The read functions\<close>

definition tree_reader_read ::
  "env \<Rightarrow> git_buf \<Rightarrow> git_oid option \<Rightarrow> tree_reader \<Rightarrow> path \<Rightarrow> read_result" where
  "tree_reader_read e out out_id reader filename =
     (case git_tree_entry_bypath (tr_tree reader) filename of
        Inl error \<Rightarrow> \<lparr>ret = error, out_buf = out, out_oid = out_id, hash_calls = []\<rparr>
      | Inr tree_entry \<Rightarrow>
          (case git_blob_lookup (git_tree_owner (tr_tree reader)) (git_tree_entry_id tree_entry) of
             Inl error \<Rightarrow> \<lparr>ret = error, out_buf = out, out_oid = out_id, hash_calls = []\<rparr>
           | Inr blob \<Rightarrow>
               (let out1 = git_buf_put (git_buf_grow_ok e) (git_buf_clear out) blob;
                    error = (if git_buf_oom out1 then - 1 else 0)
                in \<lparr>ret = error, out_buf = out1,
                     out_oid = git_oid_cpy out_id (git_tree_entry_id tree_entry),
                     hash_calls = []\<rparr>)))"

definition workdir_reader_read ::
  "env \<Rightarrow> git_buf \<Rightarrow> git_oid option \<Rightarrow> workdir_reader \<Rightarrow> path \<Rightarrow> read_result" where
  "workdir_reader_read e out out_id reader filename =
     (case git_buf_joinpath e (git_repository_workdir (wr_repo reader)) filename of
        Inl error \<Rightarrow> \<lparr>ret = error, out_buf = out, out_oid = out_id, hash_calls = []\<rparr>
      | Inr p \<Rightarrow>
     (case git_filter_list_load (wr_repo reader) filename GIT_FILTER_TO_ODB of
        Inl error \<Rightarrow> \<lparr>ret = error, out_buf = out, out_oid = out_id, hash_calls = []\<rparr>
      | Inr filters \<Rightarrow>
     (case git_filter_list_apply_to_file e out filters (wr_repo reader) p of
        (error, out1) \<Rightarrow>
          if error < 0 then
            \<lparr>ret = error, out_buf = out1, out_oid = out_id, hash_calls = []\<rparr>
          else if out_id \<noteq> None \<or> wr_index reader \<noteq> None then
            (case git_odb_hash e (git_buf_content out1) GIT_OBJ_BLOB of
               Inl error \<Rightarrow>
                 \<lparr>ret = error, out_buf = out1, out_oid = out_id,
                  hash_calls = [(git_buf_content out1, GIT_OBJ_BLOB)]\<rparr>
             | Inr oid \<Rightarrow>
                 (case wr_index reader of
                    None \<Rightarrow>
                      \<lparr>ret = 0, out_buf = out1, out_oid = git_oid_cpy out_id oid,
                       hash_calls = [(git_buf_content out1, GIT_OBJ_BLOB)]\<rparr>
                  | Some index \<Rightarrow>
                      (case git_index_get_bypath index filename 0 of
                         None \<Rightarrow>
                           \<lparr>ret = GIT_READER_MISMATCH, out_buf = out1, out_oid = out_id,
                            hash_calls = [(git_buf_content out1, GIT_OBJ_BLOB)]\<rparr>
                       | Some idx_entry \<Rightarrow>
                           if \<not> git_oid_equal oid (index_entry_id idx_entry) then
                             \<lparr>ret = GIT_READER_MISMATCH, out_buf = out1, out_oid = out_id,
                              hash_calls = [(git_buf_content out1, GIT_OBJ_BLOB)]\<rparr>
                           else
                             \<lparr>ret = 0, out_buf = out1, out_oid = git_oid_cpy out_id oid,
                              hash_calls = [(git_buf_content out1, GIT_OBJ_BLOB)]\<rparr>)))
          else
            \<lparr>ret = error, out_buf = out1, out_oid = out_id, hash_calls = []\<rparr>)))"


definition index_reader_read ::
  "env \<Rightarrow> git_buf \<Rightarrow> git_oid option \<Rightarrow> index_reader \<Rightarrow> path \<Rightarrow> read_result" where
  "index_reader_read e out out_id reader filename =
     (case git_index_get_bypath (ir_index reader) filename 0 of
        None \<Rightarrow> \<lparr>ret = GIT_ENOTFOUND, out_buf = out, out_oid = out_id, hash_calls = []\<rparr>
      | Some entry \<Rightarrow>
          (case git_blob_lookup (ir_repo reader) (index_entry_id entry) of
             Inl error \<Rightarrow> \<lparr>ret = error, out_buf = out, out_oid = out_id, hash_calls = []\<rparr>
           | Inr blob \<Rightarrow>
               (case git_blob__getbuf e out blob of
                  (error, out1) \<Rightarrow>
                    \<lparr>ret = error, out_buf = out1,
                     out_oid = git_oid_cpy out_id (index_entry_id entry),
                     hash_calls = []\<rparr>)))"

section \<open>Constructors and dispatch\<close>

text \<open>
  \<^verbatim>\<open>GITERR_CHECK_ALLOC\<close> returns \<open>-1\<close> when \<^verbatim>\<open>git__calloc\<close> gave no memory. The
  workdir reader's index stays null (the struct is zeroed) unless validation is asked
  for.
\<close>

definition git_reader_for_tree :: "env \<Rightarrow> git_tree \<Rightarrow> int + git_reader" where
  "git_reader_for_tree e tree =
     (if \<not> git__calloc_ok e then Inl (- 1)
      else Inr (Tree_reader \<lparr>tr_tree = tree\<rparr>))"

definition git_reader_for_workdir :: "env \<Rightarrow> git_repository \<Rightarrow> bool \<Rightarrow> int + git_reader" where
  "git_reader_for_workdir e repo validate_index =
     (if \<not> git__calloc_ok e then Inl (- 1)
      else if validate_index then
        (case git_repository_index__weakptr repo of
           Inl error \<Rightarrow> Inl error
         | Inr index \<Rightarrow> Inr (Workdir_reader \<lparr>wr_repo = repo, wr_index = Some index\<rparr>))
      else Inr (Workdir_reader \<lparr>wr_repo = repo, wr_index = None\<rparr>))"

definition git_reader_for_index ::
  "env \<Rightarrow> git_repository \<Rightarrow> git_index option \<Rightarrow> int + git_reader" where
  "git_reader_for_index e repo index =
     (if \<not> git__calloc_ok e then Inl (- 1)
      else
        (case index of
           Some i \<Rightarrow> Inr (Index_reader \<lparr>ir_repo = repo, ir_index = i\<rparr>)
         | None \<Rightarrow>
             (case git_repository_index__weakptr repo of
                Inl error \<Rightarrow> Inl error
              | Inr i \<Rightarrow> Inr (Index_reader \<lparr>ir_repo = repo, ir_index = i\<rparr>))))"

text \<open>\<^verbatim>\<open>reader->read(out, out_id, reader, filename)\<close>: the call through the function pointer.\<close>

definition git_reader_read ::
  "env \<Rightarrow> git_buf \<Rightarrow> git_oid option \<Rightarrow> git_reader \<Rightarrow> path \<Rightarrow> read_result" where
  "git_reader_read e out out_id reader filename =
     (case reader of
        Tree_reader r \<Rightarrow> tree_reader_read e out out_id r filename
      | Workdir_reader r \<Rightarrow> workdir_reader_read e out out_id r filename
      | Index_reader r \<Rightarrow> index_reader_read e out out_id r filename)"

section \<open>Teardown\<close>

text \<open>
  Readers live in allocated storage. The heap maps an address to the object stored
  there; \<^verbatim>\<open>git__free\<close> releases one address. The three teardown functions do nothing
  (\<^verbatim>\<open>GIT_UNUSED(_reader)\<close>). \<^verbatim>\<open>git_reader_free\<close> returns \<open>None\<close> where the C is
  undefined: when the non-null pointer is not the address of a live reader.
\<close>

type_synonym addr = nat

datatype heap_obj =
  Reader_obj git_reader
| Tree_obj git_tree
| Repository_obj git_repository
| Index_obj git_index

type_synonym heap = "addr \<Rightarrow> heap_obj option"

definition git__free :: "addr \<Rightarrow> heap \<Rightarrow> heap" where
  "git__free a h = h(a := None)"

definition tree_reader_free :: "addr \<Rightarrow> heap \<Rightarrow> heap" where
  "tree_reader_free reader h = h"

definition workdir_reader_free :: "addr \<Rightarrow> heap \<Rightarrow> heap" where
  "workdir_reader_free reader h = h"

definition index_reader_free :: "addr \<Rightarrow> heap \<Rightarrow> heap" where
  "index_reader_free reader h = h"

text \<open>\<^verbatim>\<open>reader->free\<close>: the teardown function the constructor stored in the reader.\<close>

fun reader_free :: "git_reader \<Rightarrow> addr \<Rightarrow> heap \<Rightarrow> heap" where
  "reader_free (Tree_reader r) = tree_reader_free"
| "reader_free (Workdir_reader r) = workdir_reader_free"
| "reader_free (Index_reader r) = index_reader_free"

definition git_reader_free :: "addr option \<Rightarrow> heap \<Rightarrow> heap option" where
  "git_reader_free reader h =
     (case reader of
        None \<Rightarrow> Some h
      | Some a \<Rightarrow>
          (case h a of
             Some (Reader_obj r) \<Rightarrow> Some (git__free a (reader_free r a h))
           | _ \<Rightarrow> None))"

section \<open>An example repository\<close>

text \<open>
  A small repository used to evaluate the functions: the tree and the index hold
  \<open>a.txt\<close> (content \<open>hello\<close>) and \<open>b.txt\<close> (content \<open>old\<close>); the working directory holds
  \<open>a.txt\<close> unchanged, \<open>b.txt\<close> changed to \<open>new\<close>, and an unstaged \<open>c.txt\<close>. The example
  hash names a content by prefixing it; the example filter removes carriage returns.
\<close>

definition example_hash :: "bytes \<Rightarrow> git_otype \<Rightarrow> int + git_oid" where
  "example_hash d t = Inr (''id-'' @ d)"

definition example_env :: env where
  "example_env =
     \<lparr>git_buf_joinpath = (\<lambda>a b. Inr (a @ b)),
      git_odb_hash = example_hash,
      git_buf_grow_ok = (\<lambda>n. True),
      git__calloc_ok = True\<rparr>"

text \<open>The same environment with an allocator that cannot grow any buffer.\<close>

definition example_env_oom :: env where
  "example_env_oom = example_env\<lparr>git_buf_grow_ok := (\<lambda>n. False)\<rparr>"


definition example_index :: git_index where
  "example_index =
     (\<lambda>k. if k = (''a.txt'', 0) then Some \<lparr>index_entry_id = ''id-hello''\<rparr>
          else if k = (''b.txt'', 0) then Some \<lparr>index_entry_id = ''id-old''\<rparr>
          else None)"

definition example_filters :: git_filter_list where
  "example_filters raw = Inr (filter (\<lambda>c. c \<noteq> CHR 0x0D) raw)"

definition example_repo :: git_repository where
  "example_repo =
     \<lparr>git_repository_workdir = ''/repo/'',
      git_blob_lookup =
        (\<lambda>i. if i = ''id-hello'' then Inr ''hello''
             else if i = ''id-old'' then Inr ''old''
             else Inl GIT_ENOTFOUND),
      git_repository_index__weakptr = Inr example_index,
      git_filter_list_load = (\<lambda>p m. Inr example_filters),
      workdir_files =
        (\<lambda>p. if p = ''/repo/a.txt'' then Some ''hello''
             else if p = ''/repo/b.txt'' then Some ''new''
             else if p = ''/repo/c.txt'' then Some ''draft''
             else None)\<rparr>"

definition example_tree :: git_tree where
  "example_tree =
     \<lparr>git_tree_owner = example_repo,
      tree_entries =
        (\<lambda>p. if p = ''a.txt'' then Some \<lparr>git_tree_entry_id = ''id-hello''\<rparr>
             else if p = ''b.txt'' then Some \<lparr>git_tree_entry_id = ''id-old''\<rparr>
             else None)\<rparr>"

text \<open>The example repository with a filter configuration that cannot be loaded.\<close>

definition example_repo_broken_filters :: git_repository where
  "example_repo_broken_filters = example_repo\<lparr>git_filter_list_load := (\<lambda>p m. Inl (- 1))\<rparr>"

text \<open>A heap holding the example tree at address 1 and a tree reader bound to it at address 2.\<close>

definition example_heap :: heap where
  "example_heap =
     (\<lambda>a. if a = 1 then Some (Tree_obj example_tree)
          else if a = 2 then Some (Reader_obj (Tree_reader \<lparr>tr_tree = example_tree\<rparr>))
          else None)"

section \<open>Basic facts\<close>

lemmas example_defs =
  git_reader_for_workdir_def git_filter_list_apply_to_file_def git_index_get_bypath_def
  example_env_def example_repo_def example_index_def example_filters_def
  example_hash_def GIT_BUF_INIT_def

lemma GIT_codes:
  "GIT_ENOTFOUND \<noteq> GIT_READER_MISMATCH" "GIT_READER_MISMATCH \<noteq> 0" "GIT_ENOTFOUND \<noteq> 0"
  by (simp_all add: GIT_ENOTFOUND_def GIT_READER_MISMATCH_def)

lemma git_buf_oom_content: "git_buf_oom b \<Longrightarrow> git_buf_content b = []"
  by (cases b) simp_all

lemma git_buf_clear_content: "git_buf_content (git_buf_clear b) = []"
  by (cases b) simp_all

text \<open>Copying into a cleared buffer either leaves exactly the copied bytes or fails.\<close>

lemma git_buf_put_clear:
  "\<not> git_buf_oom (git_buf_put g (git_buf_clear out) d)
     \<Longrightarrow> git_buf_put g (git_buf_clear out) d = Buf d"
  by (cases out) (simp_all split: if_splits)

text \<open>What the workdir constructor builds, with and without validation.\<close>

lemma git_reader_for_workdir_validate:
  assumes "git_reader_for_workdir e0 repo True = Inr reader"
    and "git_repository_index__weakptr repo = Inr index"
  shows "reader = Workdir_reader \<lparr>wr_repo = repo, wr_index = Some index\<rparr>"
  using assms by (simp add: git_reader_for_workdir_def split: if_splits)

lemma git_reader_for_workdir_no_validate:
  assumes "git_reader_for_workdir e0 repo False = Inr reader"
  shows "reader = Workdir_reader \<lparr>wr_repo = repo, wr_index = None\<rparr>"
  using assms by (simp add: git_reader_for_workdir_def split: if_splits)

section \<open>Workdir reads against the index\<close>

text \<open>
  C1 (as amended). A workdir reader constructed with validation reads a path that has
  no stage-0 entry in the repository's index. When the working file is there and is
  filtered and hashed, the read fails with \<open>GIT_READER_MISMATCH\<close>: the missing entry
  and a differing identity share one branch of the code. The spec's NotFound is not
  what the code returns for a file that exists.
\<close>

theorem workdir_unstaged_mismatch:
  assumes "git_reader_for_workdir e0 repo True = Inr reader"
    and "git_repository_index__weakptr repo = Inr index"
    and "git_index_get_bypath index filename 0 = None"
    and "git_buf_joinpath e (git_repository_workdir repo) filename = Inr p"
    and "git_filter_list_load repo filename GIT_FILTER_TO_ODB = Inr filters"
    and "git_filter_list_apply_to_file e out filters repo p = (0, Buf content)"
    and "git_odb_hash e content GIT_OBJ_BLOB = Inr oid"
  shows "ret (git_reader_read e out out_id reader filename) = GIT_READER_MISMATCH"
proof -
  have "reader = Workdir_reader \<lparr>wr_repo = repo, wr_index = Some index\<rparr>"
    using assms(1,2) by (rule git_reader_for_workdir_validate)
  then show ?thesis
    using assms(3-7) by (simp add: git_reader_read_def workdir_reader_read_def)
qed

text \<open>The theorem at \<open>c.txt\<close> of the example: in the working directory, not in the index.\<close>

theorem workdir_unstaged_mismatch_witness:
  "git_reader_for_workdir example_env example_repo True
     = Inr (Workdir_reader \<lparr>wr_repo = example_repo, wr_index = Some example_index\<rparr>) \<and>
   git_index_get_bypath example_index ''c.txt'' 0 = None \<and>
   git_filter_list_apply_to_file example_env GIT_BUF_INIT example_filters example_repo
     ''/repo/c.txt'' = (0, Buf ''draft'') \<and>
   ret (git_reader_read example_env GIT_BUF_INIT (Some ''none'')
          (Workdir_reader \<lparr>wr_repo = example_repo, wr_index = Some example_index\<rparr>) ''c.txt'')
     = GIT_READER_MISMATCH"
  using workdir_unstaged_mismatch [where ?e0.0 = example_env and repo = example_repo
      and reader = "Workdir_reader \<lparr>wr_repo = example_repo, wr_index = Some example_index\<rparr>"
      and index = example_index and filename = "''c.txt''" and e = example_env
      and p = "''/repo/c.txt''" and filters = example_filters and out = GIT_BUF_INIT
      and content = "''draft''" and oid = "''id-draft''" and out_id = "Some ''none''"]
  by (simp add: example_defs)

text \<open>
  C1 as stated fails: \<open>c.txt\<close> has no index entry, its working file exists, and the
  validating read returns \<open>GIT_READER_MISMATCH\<close>, which is not \<open>GIT_ENOTFOUND\<close>.
\<close>

theorem workdir_unstaged_not_found_counterexample:
  "git_reader_for_workdir example_env example_repo True
     = Inr (Workdir_reader \<lparr>wr_repo = example_repo, wr_index = Some example_index\<rparr>) \<and>
   git_index_get_bypath example_index ''c.txt'' 0 = None \<and>
   workdir_files example_repo ''/repo/c.txt'' = Some ''draft'' \<and>
   ret (git_reader_read example_env GIT_BUF_INIT None
          (Workdir_reader \<lparr>wr_repo = example_repo, wr_index = Some example_index\<rparr>) ''c.txt'')
     = GIT_READER_MISMATCH \<and>
   GIT_READER_MISMATCH \<noteq> GIT_ENOTFOUND"
  by (simp add: git_reader_read_def workdir_reader_read_def git_oid_equal_def
      GIT_ENOTFOUND_def GIT_READER_MISMATCH_def example_defs)

text \<open>
  C3. A workdir reader constructed with validation reads a path that has a stage-0
  entry in the repository's index, and the working file is filtered to \<open>content\<close> and
  hashed to \<open>oid\<close>, its freshly computed identity. The read fails with
  \<open>GIT_READER_MISMATCH\<close> exactly when \<open>oid\<close> differs from the identity of the entry;
  when they agree it returns 0 with the filtered content in the buffer and, when an
  identity was asked for, \<open>oid\<close> in the identity output.
\<close>

theorem workdir_validate_mismatch_iff:
  assumes "git_reader_for_workdir e0 repo True = Inr reader"
    and "git_repository_index__weakptr repo = Inr index"
    and "git_index_get_bypath index filename 0 = Some idx_entry"
    and "git_buf_joinpath e (git_repository_workdir repo) filename = Inr p"
    and "git_filter_list_load repo filename GIT_FILTER_TO_ODB = Inr filters"
    and "git_filter_list_apply_to_file e out filters repo p = (0, Buf content)"
    and "git_odb_hash e content GIT_OBJ_BLOB = Inr oid"
  shows "(ret (git_reader_read e out out_id reader filename) = GIT_READER_MISMATCH
            \<longleftrightarrow> oid \<noteq> index_entry_id idx_entry) \<and>
         (oid = index_entry_id idx_entry \<longrightarrow>
            ret (git_reader_read e out out_id reader filename) = 0 \<and>
            out_buf (git_reader_read e out out_id reader filename) = Buf content \<and>
            out_oid (git_reader_read e out out_id reader filename) = git_oid_cpy out_id oid)"
proof -
  have "reader = Workdir_reader \<lparr>wr_repo = repo, wr_index = Some index\<rparr>"
    using assms(1,2) by (rule git_reader_for_workdir_validate)
  then show ?thesis
    using assms(3-7) GIT_codes(2)
    by (simp add: git_reader_read_def workdir_reader_read_def git_oid_equal_def)
qed

text \<open>
  The theorem at \<open>a.txt\<close> (working file as staged: success) and at \<open>b.txt\<close> (working
  file changed: mismatch) of the example.
\<close>

theorem workdir_validate_mismatch_iff_witness:
  "git_index_get_bypath example_index ''a.txt'' 0 = Some \<lparr>index_entry_id = ''id-hello''\<rparr> \<and>
   git_filter_list_apply_to_file example_env GIT_BUF_INIT example_filters example_repo
     ''/repo/a.txt'' = (0, Buf ''hello'') \<and>
   git_odb_hash example_env ''hello'' GIT_OBJ_BLOB = Inr ''id-hello'' \<and>
   ret (git_reader_read example_env GIT_BUF_INIT (Some ''none'')
          (Workdir_reader \<lparr>wr_repo = example_repo, wr_index = Some example_index\<rparr>) ''a.txt'')
     = 0 \<and>
   out_buf (git_reader_read example_env GIT_BUF_INIT (Some ''none'')
          (Workdir_reader \<lparr>wr_repo = example_repo, wr_index = Some example_index\<rparr>) ''a.txt'')
     = Buf ''hello'' \<and>
   out_oid (git_reader_read example_env GIT_BUF_INIT (Some ''none'')
          (Workdir_reader \<lparr>wr_repo = example_repo, wr_index = Some example_index\<rparr>) ''a.txt'')
     = Some ''id-hello'' \<and>
   git_index_get_bypath example_index ''b.txt'' 0 = Some \<lparr>index_entry_id = ''id-old''\<rparr> \<and>
   git_odb_hash example_env ''new'' GIT_OBJ_BLOB = Inr ''id-new'' \<and>
   ret (git_reader_read example_env GIT_BUF_INIT (Some ''none'')
          (Workdir_reader \<lparr>wr_repo = example_repo, wr_index = Some example_index\<rparr>) ''b.txt'')
     = GIT_READER_MISMATCH"
  using workdir_validate_mismatch_iff [where ?e0.0 = example_env and repo = example_repo
      and reader = "Workdir_reader \<lparr>wr_repo = example_repo, wr_index = Some example_index\<rparr>"
      and index = example_index and filename = "''a.txt''" and e = example_env
      and p = "''/repo/a.txt''" and filters = example_filters and out = GIT_BUF_INIT
      and content = "''hello''" and oid = "''id-hello''" and out_id = "Some ''none''"
      and idx_entry = "\<lparr>index_entry_id = ''id-hello''\<rparr>"]
    workdir_validate_mismatch_iff [where ?e0.0 = example_env and repo = example_repo
      and reader = "Workdir_reader \<lparr>wr_repo = example_repo, wr_index = Some example_index\<rparr>"
      and index = example_index and filename = "''b.txt''" and e = example_env
      and p = "''/repo/b.txt''" and filters = example_filters and out = GIT_BUF_INIT
      and content = "''new''" and oid = "''id-new''" and out_id = "Some ''none''"
      and idx_entry = "\<lparr>index_entry_id = ''id-old''\<rparr>"]
  by (simp add: example_defs)

section \<open>Tree and index reads\<close>

text \<open>
  C5. A tree read of a path that has no entry in the tree, and an index read of a path
  that has no stage-0 entry in the index, each return \<open>GIT_ENOTFOUND\<close>.
\<close>

theorem absent_path_not_found:
  "(tree_entries (tr_tree tr) filename = None \<longrightarrow>
      ret (git_reader_read e out out_id (Tree_reader tr) filename) = GIT_ENOTFOUND) \<and>
   (git_index_get_bypath (ir_index ir) filename 0 = None \<longrightarrow>
      ret (git_reader_read e out out_id (Index_reader ir) filename) = GIT_ENOTFOUND)"
  by (simp add: git_reader_read_def tree_reader_read_def index_reader_read_def
      git_tree_entry_bypath_def)

text \<open>The theorem at \<open>missing.txt\<close>, which neither the example tree nor the example index holds.\<close>

theorem absent_path_not_found_witness:
  "tree_entries example_tree ''missing.txt'' = None \<and>
   ret (git_reader_read example_env GIT_BUF_INIT None
          (Tree_reader \<lparr>tr_tree = example_tree\<rparr>) ''missing.txt'') = GIT_ENOTFOUND \<and>
   git_index_get_bypath example_index ''missing.txt'' 0 = None \<and>
   ret (git_reader_read example_env GIT_BUF_INIT None
          (Index_reader \<lparr>ir_repo = example_repo, ir_index = example_index\<rparr>) ''missing.txt'')
     = GIT_ENOTFOUND"
  using absent_path_not_found [of "\<lparr>tr_tree = example_tree\<rparr>" "''missing.txt''"
      example_env GIT_BUF_INIT None "\<lparr>ir_repo = example_repo, ir_index = example_index\<rparr>"]
  by (simp add: example_tree_def example_index_def git_index_get_bypath_def)

text \<open>
  C4 (as amended). A tree read of a path that has an entry in the tree, whose blob is
  found in the object database of the tree's repository, and whose bytes are copied
  to the output buffer without running out of memory, returns 0; the buffer then holds
  exactly the blob's bytes, and the identity output, when asked for, holds the
  identity stored in the tree entry.
\<close>

theorem tree_read_present:
  assumes "tree_entries (tr_tree tr) filename = Some tree_entry"
    and "git_blob_lookup (git_tree_owner (tr_tree tr)) (git_tree_entry_id tree_entry) = Inr blob"
    and "\<not> git_buf_oom (git_buf_put (git_buf_grow_ok e) (git_buf_clear out) blob)"
  shows "git_reader_read e out out_id (Tree_reader tr) filename =
           \<lparr>ret = 0, out_buf = Buf blob,
            out_oid = git_oid_cpy out_id (git_tree_entry_id tree_entry), hash_calls = []\<rparr>"
  using assms git_buf_put_clear [OF assms(3)]
  by (simp add: git_reader_read_def tree_reader_read_def git_tree_entry_bypath_def Let_def)

text \<open>The theorem at \<open>a.txt\<close> of the example tree, with an allocator that does not fail.\<close>

theorem tree_read_present_witness:
  "tree_entries example_tree ''a.txt'' = Some \<lparr>git_tree_entry_id = ''id-hello''\<rparr> \<and>
   git_blob_lookup (git_tree_owner example_tree) ''id-hello'' = Inr ''hello'' \<and>
   \<not> git_buf_oom (git_buf_put (git_buf_grow_ok example_env) (git_buf_clear GIT_BUF_INIT) ''hello'') \<and>
   git_reader_read example_env GIT_BUF_INIT (Some ''none'')
       (Tree_reader \<lparr>tr_tree = example_tree\<rparr>) ''a.txt'' =
     \<lparr>ret = 0, out_buf = Buf ''hello'', out_oid = Some ''id-hello'', hash_calls = []\<rparr>"
  using tree_read_present [where tr = "\<lparr>tr_tree = example_tree\<rparr>" and filename = "''a.txt''"
      and tree_entry = "\<lparr>git_tree_entry_id = ''id-hello''\<rparr>" and blob = "''hello''"
      and e = example_env and out = GIT_BUF_INIT and out_id = "Some ''none''"]
  by (simp add: example_tree_def example_repo_def example_env_def GIT_BUF_INIT_def)

text \<open>
  C4 as stated fails: \<open>a.txt\<close> is in the example tree and its blob is stored, but when
  the output buffer cannot grow the read returns \<open>-1\<close> (lines 45-46 of the source).
\<close>

theorem tree_read_present_counterexample:
  "tree_entries example_tree ''a.txt'' = Some \<lparr>git_tree_entry_id = ''id-hello''\<rparr> \<and>
   git_blob_lookup (git_tree_owner example_tree) ''id-hello'' = Inr ''hello'' \<and>
   ret (git_reader_read example_env_oom GIT_BUF_INIT None
          (Tree_reader \<lparr>tr_tree = example_tree\<rparr>) ''a.txt'') = - 1"
  by (simp add: git_reader_read_def tree_reader_read_def git_tree_entry_bypath_def
      example_tree_def example_repo_def example_env_oom_def example_env_def GIT_BUF_INIT_def)

text \<open>
  C6 (as amended). An index read of a path that has a stage-0 entry in the index,
  whose blob is found in the object database of the repository and is copied to the
  output buffer without failure, returns 0; the buffer then holds exactly the blob's
  bytes, and the identity output, when asked for, holds the identity stored in the
  index entry.
\<close>

theorem index_read_present:
  assumes "git_index_get_bypath (ir_index ir) filename 0 = Some entry"
    and "git_blob_lookup (ir_repo ir) (index_entry_id entry) = Inr blob"
    and "fst (git_blob__getbuf e out blob) = 0"
  shows "git_reader_read e out out_id (Index_reader ir) filename =
           \<lparr>ret = 0, out_buf = Buf blob,
            out_oid = git_oid_cpy out_id (index_entry_id entry), hash_calls = []\<rparr>"
proof -
  from assms(3) have "\<not> git_buf_oom (git_buf_put (git_buf_grow_ok e) (git_buf_clear out) blob)"
    by (simp add: git_blob__getbuf_def Let_def split: if_splits)
  then have "git_blob__getbuf e out blob = (0, Buf blob)"
    using git_buf_put_clear by (simp add: git_blob__getbuf_def Let_def)
  then show ?thesis
    using assms(1,2) by (simp add: git_reader_read_def index_reader_read_def)
qed

text \<open>The theorem at \<open>b.txt\<close> of the example index, with an allocator that does not fail.\<close>

theorem index_read_present_witness:
  "git_index_get_bypath example_index ''b.txt'' 0 = Some \<lparr>index_entry_id = ''id-old''\<rparr> \<and>
   git_blob_lookup example_repo ''id-old'' = Inr ''old'' \<and>
   fst (git_blob__getbuf example_env GIT_BUF_INIT ''old'') = 0 \<and>
   git_reader_read example_env GIT_BUF_INIT (Some ''none'')
       (Index_reader \<lparr>ir_repo = example_repo, ir_index = example_index\<rparr>) ''b.txt'' =
     \<lparr>ret = 0, out_buf = Buf ''old'', out_oid = Some ''id-old'', hash_calls = []\<rparr>"
  using index_read_present [where ir = "\<lparr>ir_repo = example_repo, ir_index = example_index\<rparr>"
      and filename = "''b.txt''" and entry = "\<lparr>index_entry_id = ''id-old''\<rparr>"
      and blob = "''old''" and e = example_env and out = GIT_BUF_INIT
      and out_id = "Some ''none''"]
  by (simp add: example_defs git_blob__getbuf_def)

text \<open>
  C6 as stated fails: \<open>a.txt\<close> is staged and its blob is stored, but when the content
  cannot be copied to the output buffer the read returns the error of the copy.
\<close>

theorem index_read_present_counterexample:
  "git_index_get_bypath example_index ''a.txt'' 0 = Some \<lparr>index_entry_id = ''id-hello''\<rparr> \<and>
   git_blob_lookup example_repo ''id-hello'' = Inr ''hello'' \<and>
   ret (git_reader_read example_env_oom GIT_BUF_INIT None
          (Index_reader \<lparr>ir_repo = example_repo, ir_index = example_index\<rparr>) ''a.txt'') = - 1"
  by (simp add: git_reader_read_def index_reader_read_def git_blob__getbuf_def
      git_index_get_bypath_def example_index_def example_repo_def example_env_oom_def
      example_env_def GIT_BUF_INIT_def)

section \<open>Workdir reads without validation, and hashing\<close>

text \<open>
  A workdir read without a bound index never looks at the repository's index: the
  result is the same whatever the index of the repository is.
\<close>

lemma workdir_reader_read_staging_independent:
  "workdir_reader_read e out out_id
      \<lparr>wr_repo = repo\<lparr>git_repository_index__weakptr := staging\<rparr>, wr_index = None\<rparr> filename
   = workdir_reader_read e out out_id \<lparr>wr_repo = repo, wr_index = None\<rparr> filename"
  by (simp add: workdir_reader_read_def git_filter_list_apply_to_file_def
      split: sum.splits prod.splits)

text \<open>
  C8 (as amended). A workdir reader constructed without validation reads a path at
  which a working file exists. When the path is joined, the filters are loaded and
  applied to the file, giving \<open>content\<close>, and, if an identity is asked for, the content
  is hashed, the read returns 0 with \<open>content\<close> in the buffer. No hypothesis mentions
  the index, and the last two conjuncts say that the same reader is built and the same
  result is read whatever the index of the repository is.
\<close>

theorem workdir_no_validate_read:
  assumes "git_reader_for_workdir e0 repo False = Inr reader"
    and "git_buf_joinpath e (git_repository_workdir repo) filename = Inr p"
    and "workdir_files repo p = Some raw"
    and "git_filter_list_load repo filename GIT_FILTER_TO_ODB = Inr filters"
    and "git_filter_list_apply_to_file e out filters repo p = (0, Buf content)"
    and "out_id = None \<or> git_odb_hash e content GIT_OBJ_BLOB = Inr oid"
  shows "ret (git_reader_read e out out_id reader filename) = 0 \<and>
         out_buf (git_reader_read e out out_id reader filename) = Buf content \<and>
         out_oid (git_reader_read e out out_id reader filename) = git_oid_cpy out_id oid \<and>
         git_reader_for_workdir e0 (repo\<lparr>git_repository_index__weakptr := staging\<rparr>) False
           = Inr (Workdir_reader
               \<lparr>wr_repo = repo\<lparr>git_repository_index__weakptr := staging\<rparr>, wr_index = None\<rparr>) \<and>
         git_reader_read e out out_id
             (Workdir_reader
               \<lparr>wr_repo = repo\<lparr>git_repository_index__weakptr := staging\<rparr>, wr_index = None\<rparr>)
             filename
           = git_reader_read e out out_id reader filename"
proof -
  have r: "reader = Workdir_reader \<lparr>wr_repo = repo, wr_index = None\<rparr>"
    using assms(1) by (rule git_reader_for_workdir_no_validate)
  have c: "git__calloc_ok e0"
    using assms(1) by (simp add: git_reader_for_workdir_def split: if_splits)
  have indep: "git_reader_read e out out_id
             (Workdir_reader
               \<lparr>wr_repo = repo\<lparr>git_repository_index__weakptr := staging\<rparr>, wr_index = None\<rparr>)
             filename
           = git_reader_read e out out_id reader filename"
    unfolding r by (simp add: git_reader_read_def workdir_reader_read_staging_independent)
  have ctor: "git_reader_for_workdir e0 (repo\<lparr>git_repository_index__weakptr := staging\<rparr>) False
           = Inr (Workdir_reader
               \<lparr>wr_repo = repo\<lparr>git_repository_index__weakptr := staging\<rparr>, wr_index = None\<rparr>)"
    using c by (simp add: git_reader_for_workdir_def)
  have "ret (git_reader_read e out out_id reader filename) = 0 \<and>
         out_buf (git_reader_read e out out_id reader filename) = Buf content \<and>
         out_oid (git_reader_read e out out_id reader filename) = git_oid_cpy out_id oid"
  proof (cases out_id)
    case None
    then show ?thesis
      using r assms(2,4,5) by (simp add: git_reader_read_def workdir_reader_read_def)
  next
    case (Some v)
    with assms(6) have "git_odb_hash e content GIT_OBJ_BLOB = Inr oid" by simp
    then show ?thesis
      using r Some assms(2,4,5) by (simp add: git_reader_read_def workdir_reader_read_def)
  qed
  with ctor indep show ?thesis by simp
qed

text \<open>
  The theorem at \<open>c.txt\<close> of the example: a working file that the index does not hold.
\<close>

theorem workdir_no_validate_read_witness:
  "git_reader_for_workdir example_env example_repo False
     = Inr (Workdir_reader \<lparr>wr_repo = example_repo, wr_index = None\<rparr>) \<and>
   workdir_files example_repo ''/repo/c.txt'' = Some ''draft'' \<and>
   git_index_get_bypath example_index ''c.txt'' 0 = None \<and>
   ret (git_reader_read example_env GIT_BUF_INIT (Some ''none'')
          (Workdir_reader \<lparr>wr_repo = example_repo, wr_index = None\<rparr>) ''c.txt'') = 0 \<and>
   out_buf (git_reader_read example_env GIT_BUF_INIT (Some ''none'')
          (Workdir_reader \<lparr>wr_repo = example_repo, wr_index = None\<rparr>) ''c.txt'')
     = Buf ''draft'' \<and>
   out_oid (git_reader_read example_env GIT_BUF_INIT (Some ''none'')
          (Workdir_reader \<lparr>wr_repo = example_repo, wr_index = None\<rparr>) ''c.txt'')
     = Some ''id-draft''"
  using workdir_no_validate_read [where ?e0.0 = example_env and repo = example_repo
      and reader = "Workdir_reader \<lparr>wr_repo = example_repo, wr_index = None\<rparr>"
      and filename = "''c.txt''" and e = example_env and p = "''/repo/c.txt''"
      and raw = "''draft''" and filters = example_filters and out = GIT_BUF_INIT
      and content = "''draft''" and oid = "''id-draft''" and out_id = "Some ''none''"]
  by (simp add: example_defs)

text \<open>
  C8 as stated fails: in a repository whose filter configuration cannot be loaded, the
  working file \<open>a.txt\<close> exists and the read without validation returns the error of
  \<^verbatim>\<open>git_filter_list_load\<close> (lines 104-106 of the source).
\<close>

theorem workdir_no_validate_counterexample:
  "git_reader_for_workdir example_env example_repo_broken_filters False
     = Inr (Workdir_reader \<lparr>wr_repo = example_repo_broken_filters, wr_index = None\<rparr>) \<and>
   git_buf_joinpath example_env (git_repository_workdir example_repo_broken_filters) ''a.txt''
     = Inr ''/repo/a.txt'' \<and>
   workdir_files example_repo_broken_filters ''/repo/a.txt'' = Some ''hello'' \<and>
   ret (git_reader_read example_env GIT_BUF_INIT None
          (Workdir_reader \<lparr>wr_repo = example_repo_broken_filters, wr_index = None\<rparr>) ''a.txt'')
     = - 1"
  by (simp add: git_reader_read_def workdir_reader_read_def example_repo_broken_filters_def
      example_defs)





section \<open>Outputs on failure\<close>

text \<open>
  C10. A tree read asked for an identity writes the identity of the tree entry even when
  copying the blob to the output buffer runs out of memory and the read returns \<open>-1\<close>.
  An index read asked for an identity writes the identity of the index entry before it
  loads the content, so the identity is written even when loading the content fails.
\<close>

theorem identity_written_on_failed_read:
  "(tree_entries (tr_tree tr) filename = Some tree_entry \<and>
    git_blob_lookup (git_tree_owner (tr_tree tr)) (git_tree_entry_id tree_entry) = Inr blob \<and>
    git_buf_oom (git_buf_put (git_buf_grow_ok e) (git_buf_clear out) blob) \<longrightarrow>
      ret (tree_reader_read e out (Some old) tr filename) = - 1 \<and>
      out_oid (tree_reader_read e out (Some old) tr filename)
        = Some (git_tree_entry_id tree_entry)) \<and>
   (git_index_get_bypath (ir_index ir) filename 0 = Some entry \<and>
    git_blob_lookup (ir_repo ir) (index_entry_id entry) = Inr blob \<and>
    fst (git_blob__getbuf e out blob) < 0 \<longrightarrow>
      ret (index_reader_read e out (Some old) ir filename) = fst (git_blob__getbuf e out blob) \<and>
      out_oid (index_reader_read e out (Some old) ir filename)
        = Some (index_entry_id entry))"
  by (simp add: tree_reader_read_def index_reader_read_def git_tree_entry_bypath_def
      split: prod.splits)

text \<open>The theorem at \<open>a.txt\<close> of the example, with an allocator that cannot grow a buffer.\<close>

theorem identity_written_on_failed_read_witness:
  "tree_entries example_tree ''a.txt'' = Some \<lparr>git_tree_entry_id = ''id-hello''\<rparr> \<and>
   git_buf_oom (git_buf_put (git_buf_grow_ok example_env_oom) (git_buf_clear GIT_BUF_INIT)
     ''hello'') \<and>
   ret (tree_reader_read example_env_oom GIT_BUF_INIT (Some ''none'')
     \<lparr>tr_tree = example_tree\<rparr> ''a.txt'') = - 1 \<and>
   out_oid (tree_reader_read example_env_oom GIT_BUF_INIT (Some ''none'')
     \<lparr>tr_tree = example_tree\<rparr> ''a.txt'') = Some ''id-hello'' \<and>
   git_index_get_bypath example_index ''a.txt'' 0 = Some \<lparr>index_entry_id = ''id-hello''\<rparr> \<and>
   fst (git_blob__getbuf example_env_oom GIT_BUF_INIT ''hello'') = - 1 \<and>
   ret (index_reader_read example_env_oom GIT_BUF_INIT (Some ''none'')
     \<lparr>ir_repo = example_repo, ir_index = example_index\<rparr> ''a.txt'') = - 1 \<and>
   out_oid (index_reader_read example_env_oom GIT_BUF_INIT (Some ''none'')
     \<lparr>ir_repo = example_repo, ir_index = example_index\<rparr> ''a.txt'') = Some ''id-hello''"
  using identity_written_on_failed_read [where tr = "\<lparr>tr_tree = example_tree\<rparr>"
      and filename = "''a.txt''" and tree_entry = "\<lparr>git_tree_entry_id = ''id-hello''\<rparr>"
      and blob = "''hello''" and e = example_env_oom and out = GIT_BUF_INIT
      and old = "''none''" and ir = "\<lparr>ir_repo = example_repo, ir_index = example_index\<rparr>"
      and entry = "\<lparr>index_entry_id = ''id-hello''\<rparr>"]
  by (simp add: example_defs example_tree_def example_env_oom_def git_blob__getbuf_def)








section \<open>Freeing a reader\<close>

text \<open>
  C9. \<^verbatim>\<open>git_reader_free\<close> of a null pointer returns with the heap unchanged. Of the
  address of a live reader, it calls the teardown function of the reader's variant,
  which changes nothing, and then releases that one address: every other address, so
  every object the reader borrowed, is as before.
\<close>

theorem git_reader_free_null_and_live:
  "git_reader_free None h = Some h \<and>
   (h a = Some (Reader_obj r) \<longrightarrow>
      git_reader_free (Some a) h = Some (git__free a (reader_free r a h)) \<and>
      reader_free r a h = h \<and>
      git__free a (reader_free r a h) a = None \<and>
      (\<forall>b. b \<noteq> a \<longrightarrow> git__free a (reader_free r a h) b = h b))"
  by (cases r)
     (simp_all add: git_reader_free_def git__free_def tree_reader_free_def
        workdir_reader_free_def index_reader_free_def)

text \<open>
  The theorem on the example heap: after the reader at address 2 is freed, the tree it
  was bound to is still at address 1.
\<close>

theorem git_reader_free_null_and_live_witness:
  "git_reader_free None example_heap = Some example_heap \<and>
   example_heap 2 = Some (Reader_obj (Tree_reader \<lparr>tr_tree = example_tree\<rparr>)) \<and>
   git_reader_free (Some 2) example_heap = Some (git__free 2 example_heap) \<and>
   git__free 2 example_heap 2 = None \<and>
   git__free 2 example_heap 1 = Some (Tree_obj example_tree)"
proof -
  let ?r = "Tree_reader \<lparr>tr_tree = example_tree\<rparr>"
  have live: "example_heap 2 = Some (Reader_obj ?r)"
    by (simp add: example_heap_def)
  have borrowed: "example_heap 1 = Some (Tree_obj example_tree)"
    by (simp add: example_heap_def)
  note t = git_reader_free_null_and_live [of example_heap 2 ?r]
  from t have null: "git_reader_free None example_heap = Some example_heap"
    by (rule conjunct1)
  from t live have same: "reader_free ?r 2 example_heap = example_heap"
    by blast
  from t live have freed:
    "git_reader_free (Some 2) example_heap = Some (git__free 2 (reader_free ?r 2 example_heap))"
    by blast
  from t live have gone: "git__free 2 (reader_free ?r 2 example_heap) 2 = None"
    by blast
  from t live have
    "\<forall>b. b \<noteq> 2 \<longrightarrow> git__free 2 (reader_free ?r 2 example_heap) b = example_heap b"
    by blast
  then have kept: "git__free 2 (reader_free ?r 2 example_heap) 1 = example_heap 1"
    by simp
  show ?thesis
    using null live freed gone kept borrowed unfolding same by simp
qed

end
